theory Spec2Isabelle
  imports Main
begin

section \<open>Data model of \<open>TaskBoard.tsx\<close>\<close>

text \<open>
  The interfaces \<open>Task\<close> and \<open>TaskList\<close>. Both have a field \<open>id\<close> in the source; it is
  written \<open>t_id\<close> for a task and \<open>l_id\<close> for a list here, since \<open>id\<close> is the identity
  function of HOL. The component state \<open>taskLists\<close> is a \<open>TaskList list\<close>.
\<close>

record Task =
  t_id :: string
  content :: string
  list_id :: string

record TaskList =
  l_id :: string
  title :: string
  tasks :: "Task list"

text \<open>
  The argument of \<open>onDragEnd\<close>: \<open>result.type\<close>, \<open>result.source\<close> and
  \<open>result.destination\<close>, which is \<open>null\<close> (\<open>None\<close>) for a drop outside every droppable.
  An index is a JavaScript number; the model takes the integers.
\<close>

record DraggableLocation =
  droppableId :: string
  index :: int

record DropResult =
  type :: string
  source :: DraggableLocation
  destination :: "DraggableLocation option"

section \<open>Requests to the backend client\<close>

text \<open>
  A row is the object literal handed to \<open>insert\<close> or \<open>update\<close>: its keys with their
  values, in the order written. A request is one call chain on \<open>supabase.from(table)\<close>:
  \<open>insert([row])\<close>, \<open>update(row).eq(column, value)\<close>, \<open>delete().eq(column, value)\<close>, or
  \<open>select(columns).order(column, {referencedTable, ascending})\<close>.
\<close>

datatype jsval = Str string | Num nat

type_synonym row = "(string \<times> jsval) list"

datatype request =
    Insert string "row list"
  | Update string row "string \<times> jsval"
  | Delete string "string \<times> jsval"
  | Select string string "string \<times> string \<times> bool"

datatype PostgrestError = PostgrestError string

record response =
  data :: "TaskList list option"
  error :: "PostgrestError option"

text \<open>
  A \<open>TypeError\<close> is what reading or writing a property of \<open>undefined\<close> throws. A call of
  \<open>onDragEnd\<close> either returns, having left the state \<open>taskLists\<close> at the given value and
  issued the given requests in order, or throws after the given requests. At a throw
  some array holds \<open>undefined\<close>, which is no value of \<open>TaskList list\<close>: the outcome does not
  carry the state then.
\<close>

datatype error = TypeError

datatype outcome =
    Returned "TaskList list" "request list"
  | Threw error "request list"

section \<open>Array operations\<close>

text \<open>
  \<open>Array.prototype.splice(start, deleteCount, item)\<close>: a negative \<open>start\<close> counts from
  the end and is clamped at 0, a \<open>start\<close> beyond the length is clamped to the length.
\<close>

definition relative_start :: "nat \<Rightarrow> int \<Rightarrow> nat" where
  "relative_start len start =
     (if start < 0 then nat (max (int len + start) 0) else min (nat start) len)"

text \<open>
  \<open>const [moved] = xs.splice(start, 1)\<close>: the element removed (\<open>None\<close> for \<open>undefined\<close>,
  when nothing is left to remove at \<open>start\<close>) and the array that remains.
\<close>

definition splice_remove :: "'a list \<Rightarrow> int \<Rightarrow> 'a option \<times> 'a list" where
  "splice_remove xs start =
     (let k = relative_start (length xs) start
      in if k < length xs then (Some (xs ! k), take k xs @ drop (Suc k) xs)
         else (None, xs))"

text \<open>\<open>xs.splice(start, 0, x)\<close>: the array with \<open>x\<close> inserted.\<close>

definition splice_insert :: "'a list \<Rightarrow> int \<Rightarrow> 'a \<Rightarrow> 'a list" where
  "splice_insert xs start x =
     (let k = relative_start (length xs) start in take k xs @ x # drop k xs)"

text \<open>
  \<open>xs.find(p)\<close> yields a reference to the first element that satisfies \<open>p\<close>. The handler
  then mutates that element in place, so the model keeps its index.
\<close>

fun find_index :: "('a \<Rightarrow> bool) \<Rightarrow> 'a list \<Rightarrow> nat option" where
  "find_index p [] = None"
| "find_index p (x # xs) = (if p x then Some 0 else map_option Suc (find_index p xs))"

section \<open>The handlers\<close>

subsection \<open>Creation and deletion\<close>

text \<open>
  \<open>prompt\<close> returns the text entered or \<open>null\<close>; \<open>uuidv4()\<close> returns a fresh id. Both are
  parameters. Each handler returns the requests it issues.
\<close>

definition addTaskList :: "TaskList list \<Rightarrow> string option \<Rightarrow> string \<Rightarrow> request list" where
  "addTaskList taskLists prompt uuid =
     (case prompt of
        None \<Rightarrow> []
      | Some ttl \<Rightarrow>
          if ttl = [] then []
          else let newPosition = length taskLists
               in [Insert ''task_lists''
                     [[(''id'', Str uuid), (''title'', Str ttl), (''position'', Num newPosition)]]])"

definition deleteTaskList :: "string \<Rightarrow> request list" where
  "deleteTaskList lid = [Delete ''task_lists'' (''id'', Str lid)]"

definition addTask :: "string \<Rightarrow> string option \<Rightarrow> string \<Rightarrow> request list" where
  "addTask lid prompt uuid =
     (case prompt of
        None \<Rightarrow> []
      | Some c \<Rightarrow>
          if c = [] then []
          else [Insert ''tasks''
                  [[(''id'', Str uuid), (''content'', Str c), (''list_id'', Str lid)]]])"

definition deleteTask :: "string \<Rightarrow> request list" where
  "deleteTask taskId = [Delete ''tasks'' (''id'', Str taskId)]"

subsection \<open>Fetching and the change subscription\<close>

definition fetch_query :: request where
  "fetch_query = Select ''task_lists'' ''*, tasks(*)'' (''position'', ''tasks'', True)"

text \<open>
  \<open>fetchTaskLists\<close> awaits the answer of the backend to \<open>fetch_query\<close> and replaces the
  state unless the answer carries an error; \<open>lists || []\<close> turns a \<open>null\<close> into the empty
  board. The backend is the parameter \<open>remote\<close>.
\<close>

definition fetchTaskLists :: "(request \<Rightarrow> response) \<Rightarrow> TaskList list \<Rightarrow> TaskList list" where
  "fetchTaskLists remote taskLists =
     (let r = remote fetch_query
      in if error r = None then (case data r of None \<Rightarrow> [] | Some ls \<Rightarrow> ls)
         else taskLists)"

record postgres_filter =
  event :: string
  schema :: string
  table :: string

text \<open>
  The registrations of the effect hook on channel \<open>task_board\<close>, in the order of the
  \<open>.on\<close> calls: a filter and the callback.
\<close>

definition subscription ::
  "(postgres_filter \<times> ((request \<Rightarrow> response) \<Rightarrow> TaskList list \<Rightarrow> TaskList list)) list" where
  "subscription =
     [(\<lparr>event = ''*'', schema = ''public'', table = ''tasks''\<rparr>, fetchTaskLists),
      (\<lparr>event = ''*'', schema = ''public'', table = ''task_lists''\<rparr>, fetchTaskLists)]"

record change =
  eventType :: string
  change_schema :: string
  change_table :: string

text \<open>
  Modelled from the spec: the change-notification channel of the backend client, which
  is not part of the repository. A registered callback is invoked for a change of a row
  when the filter names the change's schema and table and its event is \<open>*\<close> or the kind
  of the change (INSERT, UPDATE or DELETE).
\<close>

definition filter_matches :: "postgres_filter \<Rightarrow> change \<Rightarrow> bool" where
  "filter_matches f c =
     ((event f = ''*'' \<or> event f = eventType c) \<and> schema f = change_schema c
       \<and> table f = change_table c)"

definition invoked ::
  "(postgres_filter \<times> 'cb) list \<Rightarrow> change \<Rightarrow> 'cb list" where
  "invoked subs c = map snd (filter (\<lambda>(f, cb). filter_matches f c) subs)"

definition on_change ::
  "(postgres_filter \<times> ((request \<Rightarrow> response) \<Rightarrow> TaskList list \<Rightarrow> TaskList list)) list
     \<Rightarrow> change \<Rightarrow> (request \<Rightarrow> response) \<Rightarrow> TaskList list \<Rightarrow> TaskList list" where
  "on_change subs c remote taskLists = fold (\<lambda>cb s. cb remote s) (invoked subs c) taskLists"

subsection \<open>The drag handler\<close>

text \<open>
  The two write loops: \<open>for (let i = 0; i < xs.length; i++)\<close> issuing one update per
  element, with the loop counter as the position.
\<close>

fun list_position_updates :: "nat \<Rightarrow> TaskList list \<Rightarrow> request list" where
  "list_position_updates i [] = []"
| "list_position_updates i (l # ls) =
     Update ''task_lists'' [(''position'', Num i)] (''id'', Str (l_id l))
       # list_position_updates (Suc i) ls"

fun task_position_updates :: "nat \<Rightarrow> string \<Rightarrow> Task list \<Rightarrow> request list" where
  "task_position_updates i dest [] = []"
| "task_position_updates i dest (t # ts) =
     Update ''tasks'' [(''position'', Num i), (''list_id'', Str dest)] (''id'', Str (t_id t))
       # task_position_updates (Suc i) dest ts"

text \<open>
  The list branch. When the first splice removes nothing, \<open>movedList\<close> is \<open>undefined\<close> and
  the second splice puts it at index \<open>k\<close>; the state is set, the loop issues the updates
  of the elements below \<open>k\<close>, and reading \<open>updatedLists[k].id\<close> throws.
\<close>

definition reorder_lists :: "TaskList list \<Rightarrow> int \<Rightarrow> int \<Rightarrow> outcome" where
  "reorder_lists taskLists src dst =
     (let (movedList, rest) = splice_remove taskLists src
      in case movedList of
           Some l \<Rightarrow>
             let updatedLists = splice_insert rest dst l
             in Returned updatedLists (list_position_updates 0 updatedLists)
         | None \<Rightarrow>
             let k = relative_start (length rest) dst
             in Threw TypeError (list_position_updates 0 (take k rest)))"

text \<open>
  The task branch. \<open>updatedLists\<close> is a shallow copy, so the two lists found are the
  elements of the state themselves, and they are one object when both ids find the same
  list: the destination is read after the source was spliced. When the first splice
  removes nothing, \<open>movedTask.list_id = destList.id\<close> throws before the state is set and
  before any request.
\<close>

definition reorder_tasks :: "TaskList list \<Rightarrow> DraggableLocation \<Rightarrow> DraggableLocation \<Rightarrow> outcome" where
  "reorder_tasks taskLists src dst =
     (case (find_index (\<lambda>l. l_id l = droppableId src) taskLists,
            find_index (\<lambda>l. l_id l = droppableId dst) taskLists) of
        (Some si, Some di) \<Rightarrow>
          (let sourceList = taskLists ! si;
               (movedTask, rest) = splice_remove (tasks sourceList) (index src);
               lists1 = taskLists[si := sourceList\<lparr>tasks := rest\<rparr>]
           in case movedTask of
                None \<Rightarrow> Threw TypeError []
              | Some t \<Rightarrow>
                  let destList = lists1 ! di;
                      destTasks = splice_insert (tasks destList) (index dst)
                                    (t\<lparr>list_id := l_id destList\<rparr>);
                      updatedLists = lists1[di := destList\<lparr>tasks := destTasks\<rparr>]
                  in Returned updatedLists
                       (task_position_updates 0 (l_id destList) destTasks))
      | _ \<Rightarrow> Returned taskLists [])"

definition onDragEnd :: "TaskList list \<Rightarrow> DropResult \<Rightarrow> outcome" where
  "onDragEnd taskLists result =
     (case destination result of
        None \<Rightarrow> Returned taskLists []
      | Some dst \<Rightarrow>
          if type result = ''list'' then
            reorder_lists taskLists (index (source result)) (index dst)
          else if type result = ''task'' then
            reorder_tasks taskLists (source result) dst
          else Returned taskLists [])"

section \<open>The persisted tables\<close>

text \<open>
  Modelled from the spec: the remote store behind the backend client, which is not part
  of the repository. A table is a list of rows; \<open>update(flds).eq(column, value)\<close>
  overwrites the columns named by \<open>flds\<close> in every row whose \<open>column\<close> holds \<open>value\<close>,
  \<open>insert\<close> appends the rows, \<open>delete().eq(column, value)\<close> removes the rows whose
  \<open>column\<close> holds \<open>value\<close> (without any cascade), \<open>select\<close> changes nothing. Every request
  is taken to succeed.
\<close>

type_synonym store = "string \<Rightarrow> row list"

definition patch :: "row \<Rightarrow> row \<Rightarrow> row" where
  "patch flds r = map (\<lambda>(k, v). (k, case map_of flds k of Some v' \<Rightarrow> v' | None \<Rightarrow> v)) r"

definition update_row :: "row \<Rightarrow> string \<times> jsval \<Rightarrow> row \<Rightarrow> row" where
  "update_row flds w r = (if map_of r (fst w) = Some (snd w) then patch flds r else r)"

fun apply_request :: "request \<Rightarrow> store \<Rightarrow> store" where
  "apply_request (Insert tbl rows) db = db(tbl := db tbl @ rows)"
| "apply_request (Update tbl flds w) db = db(tbl := map (update_row flds w) (db tbl))"
| "apply_request (Delete tbl w) db =
     db(tbl := filter (\<lambda>r. map_of r (fst w) \<noteq> Some (snd w)) (db tbl))"
| "apply_request (Select tbl cols ord) db = db"

definition apply_requests :: "request list \<Rightarrow> store \<Rightarrow> store" where
  "apply_requests rs db = fold apply_request rs db"



text \<open>
  Modelled from the spec: the persisted row shapes, list \<open>{id, title, position}\<close> and
  task \<open>{id, content, list_id, position}\<close>, and the store that matches a board: one row
  per list and per task, each with its index as position.
\<close>

definition list_row :: "nat \<Rightarrow> TaskList \<Rightarrow> row" where
  "list_row p l = [(''id'', Str (l_id l)), (''title'', Str (title l)), (''position'', Num p)]"

definition task_row :: "nat \<Rightarrow> Task \<Rightarrow> row" where
  "task_row p t =
     [(''id'', Str (t_id t)), (''content'', Str (content t)), (''list_id'', Str (list_id t)),
      (''position'', Num p)]"

definition list_rows :: "TaskList list \<Rightarrow> row list" where
  "list_rows ls = map (\<lambda>(p, l). list_row p l) (enumerate 0 ls)"

definition task_rows :: "Task list \<Rightarrow> row list" where
  "task_rows ts = map (\<lambda>(p, t). task_row p t) (enumerate 0 ts)"

definition persisted :: "TaskList list \<Rightarrow> store" where
  "persisted taskLists =
     (\<lambda>tbl. if tbl = ''task_lists'' then list_rows taskLists
            else if tbl = ''tasks'' then concat (map (\<lambda>l. task_rows (tasks l)) taskLists)
            else [])"

text \<open>
  The position density of the spec: the positions held by the rows are exactly
  \<open>0 .. n - 1\<close> for \<open>n\<close> rows, none twice. The rows of a list are the task rows that
  refer to its id.
\<close>

definition position_of :: "row \<Rightarrow> nat option" where
  "position_of r = (case map_of r ''position'' of Some (Num p) \<Rightarrow> Some p | _ \<Rightarrow> None)"



text \<open>
  The boards the component can hold: ids are keys, and every task carries the id of the
  list it is in, as the rows fetched under a list do and as the task branch keeps it.
\<close>

definition wf_board :: "TaskList list \<Rightarrow> bool" where
  "wf_board taskLists =
     (distinct (map l_id taskLists)
      \<and> distinct (map t_id (concat (map tasks taskLists)))
      \<and> list_all (\<lambda>l. list_all (\<lambda>t. list_id t = l_id l) (tasks l)) taskLists)"

text \<open>
  Two views used in the proofs about the task table: every task of the board with its
  index in its list, in the order of the rows, and what the task write loop for the
  tasks \<open>ts\<close> of the destination \<open>d\<close> leaves of such a pair.
\<close>

definition placed_tasks :: "TaskList list \<Rightarrow> (nat \<times> Task) list" where
  "placed_tasks taskLists = concat (map (\<lambda>l. enumerate 0 (tasks l)) taskLists)"


section \<open>Example boards\<close>

definition board_AB :: "TaskList list" where
  "board_AB =
     [\<lparr>l_id = ''A'', title = ''To do'',
        tasks = [\<lparr>t_id = ''t1'', content = ''one'', list_id = ''A''\<rparr>,
                 \<lparr>t_id = ''t2'', content = ''two'', list_id = ''A''\<rparr>,
                 \<lparr>t_id = ''t3'', content = ''three'', list_id = ''A''\<rparr>]\<rparr>,
      \<lparr>l_id = ''B'', title = ''Done'',
        tasks = [\<lparr>t_id = ''u1'', content = ''four'', list_id = ''B''\<rparr>,
                 \<lparr>t_id = ''u2'', content = ''five'', list_id = ''B''\<rparr>]\<rparr>]"

definition board_L012 :: "TaskList list" where
  "board_L012 =
     [\<lparr>l_id = ''L0'', title = ''Backlog'', tasks = []\<rparr>,
      \<lparr>l_id = ''L1'', title = ''Doing'', tasks = []\<rparr>,
      \<lparr>l_id = ''L2'', title = ''Done'', tasks = []\<rparr>]"

text \<open>
  A backend that answers the full-board select with the three empty lists and every
  other request with an error.
\<close>

definition remote_L012 :: "request \<Rightarrow> response" where
  "remote_L012 q =
     (if q = Select ''task_lists'' ''*, tasks(*)'' (''position'', ''tasks'', True)
      then \<lparr>data = Some board_L012, error = None\<rparr>
      else \<lparr>data = None, error = Some (PostgrestError ''unexpected query'')\<rparr>)"

text \<open>A task and a list dropped where they were, and a task moved from A to B.\<close>

definition ev_same_task :: DropResult where
  "ev_same_task = \<lparr>type = ''task'', source = \<lparr>droppableId = ''A'', index = 1\<rparr>,
      destination = Some \<lparr>droppableId = ''A'', index = 1\<rparr>\<rparr>"

definition ev_same_list :: DropResult where
  "ev_same_list = \<lparr>type = ''list'', source = \<lparr>droppableId = ''board'', index = 1\<rparr>,
      destination = Some \<lparr>droppableId = ''board'', index = 1\<rparr>\<rparr>"


section \<open>Array and loop lemmas\<close>

lemma relative_start_in_range:
  "0 \<le> i \<Longrightarrow> i \<le> int n \<Longrightarrow> relative_start n i = nat i"
  by (auto simp: relative_start_def)

lemma relative_start_beyond: "int n \<le> i \<Longrightarrow> relative_start n i = n"
  by (auto simp: relative_start_def)

lemma relative_start_le: "relative_start n i \<le> n"
  by (auto simp: relative_start_def)

lemma relative_start_less: "0 \<le> i \<Longrightarrow> i < int n \<Longrightarrow> relative_start n i < n"
  by (auto simp: relative_start_def)

lemma splice_remove_in_range:
  "0 \<le> i \<Longrightarrow> i < int (length xs) \<Longrightarrow>
     splice_remove xs i = (Some (xs ! nat i), take (nat i) xs @ drop (Suc (nat i)) xs)"
  by (simp add: splice_remove_def relative_start_in_range Let_def)

lemma splice_insert_in_range:
  "0 \<le> j \<Longrightarrow> j \<le> int (length xs) \<Longrightarrow>
     splice_insert xs j x = take (nat j) xs @ x # drop (nat j) xs"
  by (simp add: splice_insert_def relative_start_in_range Let_def)

lemma length_splice_insert: "length (splice_insert xs j x) = Suc (length xs)"
  using relative_start_le [of "length xs" j] by (simp add: splice_insert_def Let_def)

lemma find_index_None_iff: "find_index p xs = None \<longleftrightarrow> (\<forall>x \<in> set xs. \<not> p x)"
  by (induction xs) auto

lemma find_index_absent: "x \<notin> f ` set xs \<Longrightarrow> find_index (\<lambda>l. f l = x) xs = None"
  unfolding find_index_None_iff by blast

lemma find_index_Some:
  "find_index p xs = Some k \<Longrightarrow> k < length xs \<and> p (xs ! k) \<and> (\<forall>m<k. \<not> p (xs ! m))"
proof (induction xs arbitrary: k)
  case Nil
  then show ?case by simp
next
  case (Cons x xs)
  show ?case
  proof (cases "p x")
    case True
    with Cons.prems show ?thesis by simp
  next
    case False
    with Cons.prems obtain k' where k': "find_index p xs = Some k'" "k = Suc k'"
      by auto
    from Cons.IH [OF k'(1)] False k'(2) show ?thesis
      by (auto simp: less_Suc_eq_0_disj)
  qed
qed

lemma length_list_position_updates [simp]:
  "length (list_position_updates i ls) = length ls"
  by (induction ls arbitrary: i) auto

lemma length_task_position_updates [simp]:
  "length (task_position_updates i dest ts) = length ts"
  by (induction ts arbitrary: i) auto

lemma list_position_updates_eq:
  "list_position_updates i ls =
     map (\<lambda>k. Update ''task_lists'' [(''position'', Num (i + k))] (''id'', Str (l_id (ls ! k))))
       [0..<length ls]"
proof (induction ls arbitrary: i)
  case Nil
  then show ?case by simp
next
  case (Cons l ls)
  have "[0..<length (l # ls)] = 0 # map Suc [0..<length ls]"
    by (simp add: upt_conv_Cons map_Suc_upt del: upt_Suc)
  then show ?case
    by (simp add: Cons.IH comp_def del: upt_Suc)
qed

lemma task_position_updates_eq:
  "task_position_updates i dest ts =
     map (\<lambda>k. Update ''tasks'' [(''position'', Num (i + k)), (''list_id'', Str dest)]
                 (''id'', Str (t_id (ts ! k))))
       [0..<length ts]"
proof (induction ts arbitrary: i)
  case Nil
  then show ?case by simp
next
  case (Cons t ts)
  have "[0..<length (t # ts)] = 0 # map Suc [0..<length ts]"
    by (simp add: upt_conv_Cons map_Suc_upt del: upt_Suc)
  then show ?case
    by (simp add: Cons.IH comp_def del: upt_Suc)
qed

text \<open>The two branches of the drag handler, with the first splice resolved.\<close>

lemma reorder_lists_unfold:
  "reorder_lists taskLists src dst =
     (let k = relative_start (length taskLists) src
      in if k < length taskLists then
           Returned (splice_insert (take k taskLists @ drop (Suc k) taskLists) dst (taskLists ! k))
             (list_position_updates 0
                (splice_insert (take k taskLists @ drop (Suc k) taskLists) dst (taskLists ! k)))
         else Threw TypeError
                (list_position_updates 0 (take (relative_start (length taskLists) dst) taskLists)))"
  by (simp add: reorder_lists_def splice_remove_def Let_def)

lemma reorder_tasks_unfold:
  assumes "find_index (\<lambda>l. l_id l = droppableId src) taskLists = Some si"
    and "find_index (\<lambda>l. l_id l = droppableId dst) taskLists = Some di"
  shows "reorder_tasks taskLists src dst =
     (let sourceList = taskLists ! si;
          k = relative_start (length (tasks sourceList)) (index src)
      in if k < length (tasks sourceList) then
           let lists1 = taskLists[si := sourceList
                          \<lparr>tasks := take k (tasks sourceList) @ drop (Suc k) (tasks sourceList)\<rparr>];
               destList = lists1 ! di;
               destTasks = splice_insert (tasks destList) (index dst)
                             ((tasks sourceList ! k)\<lparr>list_id := l_id destList\<rparr>)
           in Returned (lists1[di := destList\<lparr>tasks := destTasks\<rparr>])
                (task_position_updates 0 (l_id destList) destTasks)
         else Threw TypeError [])"
  using assms by (simp add: reorder_tasks_def splice_remove_def Let_def)

section \<open>Task reorder\<close>

text \<open>
  Claim C1. A task-kind drag whose source and destination ids are found (at \<open>si\<close> and
  \<open>di\<close>) and whose indices are in range takes the task at \<open>source.index\<close> out of the
  source list, puts it at \<open>destination.index\<close> of the destination list with its
  \<open>list_id\<close> set to the destination list's id, and issues one update per task of the
  destination list, with the positions \<open>0 .. n - 1\<close> and the destination's id. The source
  list of a move between two lists keeps its other tasks in order, one fewer. The
  example of the claim (three tasks in A, two in B, destination index 1) is the witness.
\<close>

theorem task_reorder:
  assumes "type result = ''task''" and "destination result = Some dst"
    and "find_index (\<lambda>l. l_id l = droppableId (source result)) taskLists = Some si"
    and "find_index (\<lambda>l. l_id l = droppableId dst) taskLists = Some di"
    and "0 \<le> index (source result)"
    and "index (source result) < int (length (tasks (taskLists ! si)))"
    and "0 \<le> index dst"
    and "index dst \<le> (if si = di then int (length (tasks (taskLists ! si))) - 1
                       else int (length (tasks (taskLists ! di))))"
  shows
    "(let i = nat (index (source result)); j = nat (index dst);
          sourceList = taskLists ! si;
          rest = take i (tasks sourceList) @ drop (Suc i) (tasks sourceList);
          moved = (tasks sourceList ! i)\<lparr>list_id := droppableId dst\<rparr>;
          base = (if si = di then rest else tasks (taskLists ! di));
          destTasks = take j base @ moved # drop j base;
          updatedLists = (taskLists[si := sourceList\<lparr>tasks := rest\<rparr>])
                           [di := (taskLists ! di)\<lparr>tasks := destTasks\<rparr>]
      in onDragEnd taskLists result =
           Returned updatedLists
             (map (\<lambda>k. Update ''tasks''
                          [(''position'', Num k), (''list_id'', Str (droppableId dst))]
                          (''id'', Str (t_id (destTasks ! k))))
                [0..<length destTasks])
         \<and> length destTasks = Suc (length base)
         \<and> destTasks ! j = moved
         \<and> list_id moved = l_id (taskLists ! di)
         \<and> tasks (updatedLists ! di) = destTasks
         \<and> (si \<noteq> di \<longrightarrow>
               tasks (updatedLists ! si) = rest
               \<and> Suc (length rest) = length (tasks sourceList)))"
proof -
  define i where "i = nat (index (source result))"
  define j where "j = nat (index dst)"
  define sourceList where "sourceList = taskLists ! si"
  define rest where "rest = take i (tasks sourceList) @ drop (Suc i) (tasks sourceList)"
  define moved where "moved = (tasks sourceList ! i)\<lparr>list_id := droppableId dst\<rparr>"
  define base where "base = (if si = di then rest else tasks (taskLists ! di))"
  define destTasks where "destTasks = take j base @ moved # drop j base"
  define lists1 where "lists1 = taskLists[si := sourceList\<lparr>tasks := rest\<rparr>]"
  define updatedLists where
    "updatedLists = lists1[di := (taskLists ! di)\<lparr>tasks := destTasks\<rparr>]"
  from find_index_Some [OF assms(3)] have si: "si < length taskLists" by simp
  from find_index_Some [OF assms(4)]
  have di: "di < length taskLists" and did: "l_id (taskLists ! di) = droppableId dst"
    by simp_all
  have i: "i < length (tasks sourceList)"
    using assms(5,6) by (simp add: i_def sourceList_def)
  have rs: "relative_start (length (tasks sourceList)) (index (source result)) = i"
    using assms(5,6) by (simp add: relative_start_in_range i_def sourceList_def)
  have len_rest: "Suc (length rest) = length (tasks sourceList)"
    using i by (simp add: rest_def)
  have dest1: "lists1 ! di = (taskLists ! di)\<lparr>tasks := base\<rparr>"
    using si di by (auto simp: lists1_def base_def sourceList_def nth_list_update)
  have jb: "index dst \<le> int (length base)"
    using assms(8) len_rest by (auto simp: base_def sourceList_def)
  then have j: "j \<le> length base"
    using assms(7) by (simp add: j_def)
  have ins: "splice_insert base (index dst) moved = destTasks"
    using assms(7) jb by (simp add: splice_insert_in_range destTasks_def j_def)
  have "reorder_tasks taskLists (source result) dst =
          Returned updatedLists (task_position_updates 0 (droppableId dst) destTasks)"
    using i
    by (simp add: reorder_tasks_unfold [OF assms(3,4)] Let_def rs dest1 did ins
        flip: sourceList_def rest_def lists1_def moved_def updatedLists_def)
  then have run: "onDragEnd taskLists result =
           Returned updatedLists
             (map (\<lambda>k. Update ''tasks''
                          [(''position'', Num k), (''list_id'', Str (droppableId dst))]
                          (''id'', Str (t_id (destTasks ! k))))
                [0..<length destTasks])"
    using assms(1,2) by (simp add: onDragEnd_def task_position_updates_eq)
  have len: "length destTasks = Suc (length base)"
    using j by (simp add: destTasks_def)
  have at: "destTasks ! j = moved"
    using j by (simp add: destTasks_def nth_append)
  have own: "list_id moved = l_id (taskLists ! di)"
    by (simp add: moved_def did)
  have dt: "tasks (updatedLists ! di) = destTasks"
    using di by (simp add: updatedLists_def lists1_def)
  have src: "tasks (updatedLists ! si) = rest" if "si \<noteq> di"
    using that si by (simp add: updatedLists_def lists1_def)
  from run len at own dt src len_rest show ?thesis
    unfolding Let_def i_def [symmetric] j_def [symmetric] sourceList_def [symmetric]
      rest_def [symmetric] moved_def [symmetric] base_def [symmetric]
      destTasks_def [symmetric] lists1_def [symmetric] updatedLists_def [symmetric]
    by (intro conjI impI)
qed

theorem task_reorder_witness:
  "onDragEnd board_AB
     \<lparr>type = ''task'', source = \<lparr>droppableId = ''A'', index = 0\<rparr>,
      destination = Some \<lparr>droppableId = ''B'', index = 1\<rparr>\<rparr>
   = Returned
       [\<lparr>l_id = ''A'', title = ''To do'',
          tasks = [\<lparr>t_id = ''t2'', content = ''two'', list_id = ''A''\<rparr>,
                   \<lparr>t_id = ''t3'', content = ''three'', list_id = ''A''\<rparr>]\<rparr>,
        \<lparr>l_id = ''B'', title = ''Done'',
          tasks = [\<lparr>t_id = ''u1'', content = ''four'', list_id = ''B''\<rparr>,
                   \<lparr>t_id = ''t1'', content = ''one'', list_id = ''B''\<rparr>,
                   \<lparr>t_id = ''u2'', content = ''five'', list_id = ''B''\<rparr>]\<rparr>]
       [Update ''tasks'' [(''position'', Num 0), (''list_id'', Str ''B'')] (''id'', Str ''u1''),
        Update ''tasks'' [(''position'', Num 1), (''list_id'', Str ''B'')] (''id'', Str ''t1''),
        Update ''tasks'' [(''position'', Num 2), (''list_id'', Str ''B'')] (''id'', Str ''u2'')]"
  using task_reorder [of "\<lparr>type = ''task'', source = \<lparr>droppableId = ''A'', index = 0\<rparr>,
      destination = Some \<lparr>droppableId = ''B'', index = 1\<rparr>\<rparr>"
      "\<lparr>droppableId = ''B'', index = 1\<rparr>" board_AB 0 1]
  by (simp add: board_AB_def Let_def numeral_3_eq_3 numeral_2_eq_2)

section \<open>List reorder\<close>

text \<open>
  Claim C3. A list-kind drag with both indices in \<open>[0, listCount)\<close> takes the list at
  \<open>source.index\<close> out and puts it back at \<open>destination.index\<close> of what remains, and
  issues for every index \<open>k\<close> of the new sequence an update that sets the position of
  the list now at \<open>k\<close> to \<open>k\<close>: every list is written, so every list whose position
  changed is. The example of the claim (index 0 to index 2 on three lists) is the
  witness.
\<close>

theorem list_reorder:
  assumes "type result = ''list''" and "destination result = Some dst"
    and "0 \<le> index (source result)" and "index (source result) < int (length taskLists)"
    and "0 \<le> index dst" and "index dst < int (length taskLists)"
  shows
    "(let i = nat (index (source result)); j = nat (index dst);
          rest = take i taskLists @ drop (Suc i) taskLists;
          updatedLists = take j rest @ taskLists ! i # drop j rest
      in onDragEnd taskLists result =
           Returned updatedLists
             (map (\<lambda>k. Update ''task_lists'' [(''position'', Num k)]
                          (''id'', Str (l_id (updatedLists ! k))))
                [0..<length taskLists])
         \<and> length updatedLists = length taskLists
         \<and> updatedLists ! j = taskLists ! i)"
proof -
  define i where "i = nat (index (source result))"
  define j where "j = nat (index dst)"
  define rest where "rest = take i taskLists @ drop (Suc i) taskLists"
  define updatedLists where "updatedLists = take j rest @ taskLists ! i # drop j rest"
  have i: "i < length taskLists" and j: "j < length taskLists"
    using assms(3-6) by (simp_all add: i_def j_def)
  have len_rest: "length rest = length taskLists - 1"
    using i by (simp add: rest_def)
  have rem: "splice_remove taskLists (index (source result)) = (Some (taskLists ! i), rest)"
    using assms(3,4) by (simp add: splice_remove_in_range i_def rest_def)
  have "index dst \<le> int (length rest)"
    using assms(6) i len_rest by simp
  then have ins: "splice_insert rest (index dst) (taskLists ! i) = updatedLists"
    using assms(5) by (simp add: splice_insert_in_range j_def updatedLists_def)
  have len: "length updatedLists = length taskLists"
    using i j len_rest by (simp add: updatedLists_def)
  have at: "updatedLists ! j = taskLists ! i"
    using j len_rest by (simp add: updatedLists_def nth_append)
  have "onDragEnd taskLists result =
          Returned updatedLists (list_position_updates 0 updatedLists)"
    using assms(1,2) rem ins by (simp add: onDragEnd_def reorder_lists_def)
  then have "onDragEnd taskLists result =
          Returned updatedLists
             (map (\<lambda>k. Update ''task_lists'' [(''position'', Num k)]
                          (''id'', Str (l_id (updatedLists ! k))))
                [0..<length taskLists])"
    by (simp add: list_position_updates_eq len)
  with len at show ?thesis
    unfolding Let_def i_def [symmetric] j_def [symmetric] rest_def [symmetric]
      updatedLists_def [symmetric]
    by (intro conjI)
qed

theorem list_reorder_witness:
  "onDragEnd board_L012
     \<lparr>type = ''list'', source = \<lparr>droppableId = ''board'', index = 0\<rparr>,
      destination = Some \<lparr>droppableId = ''board'', index = 2\<rparr>\<rparr>
   = Returned
       [\<lparr>l_id = ''L1'', title = ''Doing'', tasks = []\<rparr>,
        \<lparr>l_id = ''L2'', title = ''Done'', tasks = []\<rparr>,
        \<lparr>l_id = ''L0'', title = ''Backlog'', tasks = []\<rparr>]
       [Update ''task_lists'' [(''position'', Num 0)] (''id'', Str ''L1''),
        Update ''task_lists'' [(''position'', Num 1)] (''id'', Str ''L2''),
        Update ''task_lists'' [(''position'', Num 2)] (''id'', Str ''L0'')]"
  using list_reorder [of "\<lparr>type = ''list'', source = \<lparr>droppableId = ''board'', index = 0\<rparr>,
      destination = Some \<lparr>droppableId = ''board'', index = 2\<rparr>\<rparr>"
      "\<lparr>droppableId = ''board'', index = 2\<rparr>" board_L012]
  by (simp add: board_L012_def Let_def numeral_3_eq_3 numeral_2_eq_2)

section \<open>Drags that change nothing\<close>

text \<open>
  Claim C4. A task-kind drag whose source id or destination id is the id of no list of
  the board returns with the board as it was and without a request.
\<close>

theorem stale_target_noop:
  assumes "type result = ''task''" and "destination result = Some dst"
    and "droppableId (source result) \<notin> l_id ` set taskLists
         \<or> droppableId dst \<notin> l_id ` set taskLists"
  shows "onDragEnd taskLists result = Returned taskLists []"
proof -
  have "find_index (\<lambda>l. l_id l = droppableId (source result)) taskLists = None
        \<or> find_index (\<lambda>l. l_id l = droppableId dst) taskLists = None"
    using assms(3)
  proof
    assume "droppableId (source result) \<notin> l_id ` set taskLists"
    then show ?thesis by (simp add: find_index_absent)
  next
    assume "droppableId dst \<notin> l_id ` set taskLists"
    then show ?thesis by (simp add: find_index_absent)
  qed
  then have "reorder_tasks taskLists (source result) dst = Returned taskLists []"
    by (auto simp: reorder_tasks_def split: option.splits)
  with assms(1,2) show ?thesis
    by (simp add: onDragEnd_def)
qed

theorem stale_target_noop_witness:
  "onDragEnd board_AB
     \<lparr>type = ''task'', source = \<lparr>droppableId = ''A'', index = 0\<rparr>,
      destination = Some \<lparr>droppableId = ''gone'', index = 0\<rparr>\<rparr> = Returned board_AB []"
  using stale_target_noop [of "\<lparr>type = ''task'', source = \<lparr>droppableId = ''A'', index = 0\<rparr>,
      destination = Some \<lparr>droppableId = ''gone'', index = 0\<rparr>\<rparr>"
      "\<lparr>droppableId = ''gone'', index = 0\<rparr>" board_AB]
  by (simp add: board_AB_def)

text \<open>
  Claim C8. A drag-completion event without a destination returns with the board as it
  was and without a request, whatever its kind and source.
\<close>

theorem drop_outside_noop:
  "onDragEnd taskLists (result\<lparr>destination := None\<rparr>) = Returned taskLists []"
  by (simp add: onDragEnd_def)

section \<open>The removed element\<close>

text \<open>
  Claim C10. Both branches use the element removed by the first splice without a test.
  With \<open>0 \<le> source.index < n\<close>, \<open>n\<close> the number of items of the source container, the
  handler returns. With \<open>source.index \<ge> n\<close> it throws a \<open>TypeError\<close>: in the list branch
  inside the write loop, in the task branch before any request. For no source index
  out of range is the outcome the silent return that leaves the board and issues
  nothing.
\<close>

theorem source_index_dereference:
  assumes "destination result = Some dst"
  shows
    "(type result = ''list'' \<longrightarrow>
        (0 \<le> index (source result) \<and> index (source result) < int (length taskLists)
           \<longrightarrow> (\<exists>s rs. onDragEnd taskLists result = Returned s rs))
      \<and> (int (length taskLists) \<le> index (source result)
           \<longrightarrow> (\<exists>rs. onDragEnd taskLists result = Threw TypeError rs))
      \<and> (index (source result) < 0 \<or> int (length taskLists) \<le> index (source result)
           \<longrightarrow> onDragEnd taskLists result \<noteq> Returned taskLists []))
     \<and> (type result = ''task''
          \<and> find_index (\<lambda>l. l_id l = droppableId (source result)) taskLists = Some si
          \<and> find_index (\<lambda>l. l_id l = droppableId dst) taskLists = Some di \<longrightarrow>
        (0 \<le> index (source result)
           \<and> index (source result) < int (length (tasks (taskLists ! si)))
           \<longrightarrow> (\<exists>s rs. onDragEnd taskLists result = Returned s rs))
      \<and> (int (length (tasks (taskLists ! si))) \<le> index (source result)
           \<longrightarrow> onDragEnd taskLists result = Threw TypeError [])
      \<and> (index (source result) < 0
           \<or> int (length (tasks (taskLists ! si))) \<le> index (source result)
           \<longrightarrow> onDragEnd taskLists result \<noteq> Returned taskLists []))"
proof (intro conjI impI)
  assume ty: "type result = ''list''"
  have run: "onDragEnd taskLists result
               = reorder_lists taskLists (index (source result)) (index dst)"
    using assms ty by (simp add: onDragEnd_def)
  show "\<exists>s rs. onDragEnd taskLists result = Returned s rs"
    if "0 \<le> index (source result) \<and> index (source result) < int (length taskLists)"
    using that by (simp add: run reorder_lists_unfold relative_start_less Let_def)
  show "\<exists>rs. onDragEnd taskLists result = Threw TypeError rs"
    if "int (length taskLists) \<le> index (source result)"
    using that by (simp add: run reorder_lists_unfold relative_start_beyond Let_def)
  show "onDragEnd taskLists result \<noteq> Returned taskLists []"
    if "index (source result) < 0 \<or> int (length taskLists) \<le> index (source result)"
  proof (cases "relative_start (length taskLists) (index (source result)) < length taskLists")
    case True
    then have "\<exists>s rs. onDragEnd taskLists result = Returned s rs
                 \<and> length rs = Suc (length taskLists - 1)"
      by (simp add: run reorder_lists_unfold Let_def length_splice_insert)
    then show ?thesis by auto
  next
    case False
    then show ?thesis
      by (simp add: run reorder_lists_unfold Let_def)
  qed
next
  assume a: "type result = ''task''
          \<and> find_index (\<lambda>l. l_id l = droppableId (source result)) taskLists = Some si
          \<and> find_index (\<lambda>l. l_id l = droppableId dst) taskLists = Some di"
  have run: "onDragEnd taskLists result = reorder_tasks taskLists (source result) dst"
    using assms a by (simp add: onDragEnd_def)
  note unf = reorder_tasks_unfold [of "source result" taskLists si dst di]
  show "\<exists>s rs. onDragEnd taskLists result = Returned s rs"
    if "0 \<le> index (source result)
           \<and> index (source result) < int (length (tasks (taskLists ! si)))"
    using that a by (simp add: run unf relative_start_less Let_def)
  show "onDragEnd taskLists result = Threw TypeError []"
    if "int (length (tasks (taskLists ! si))) \<le> index (source result)"
    using that a by (simp add: run unf relative_start_beyond Let_def)
  show "onDragEnd taskLists result \<noteq> Returned taskLists []"
    if "index (source result) < 0
           \<or> int (length (tasks (taskLists ! si))) \<le> index (source result)"
  proof (cases "relative_start (length (tasks (taskLists ! si))) (index (source result))
                  < length (tasks (taskLists ! si))")
    case True
    then have "\<exists>s rs. onDragEnd taskLists result = Returned s rs \<and> rs \<noteq> []"
      using a
      by (simp add: run unf Let_def length_splice_insert
          flip: length_0_conv [of "task_position_updates _ _ _"])
    then show ?thesis by auto
  next
    case False
    then show ?thesis
      using a by (simp add: run unf Let_def)
  qed
qed

theorem source_index_dereference_witness:
  "(\<exists>s rs. onDragEnd board_L012
       \<lparr>type = ''list'', source = \<lparr>droppableId = ''board'', index = 0\<rparr>,
        destination = Some \<lparr>droppableId = ''board'', index = 2\<rparr>\<rparr> = Returned s rs)
   \<and> (\<exists>rs. onDragEnd board_L012
       \<lparr>type = ''list'', source = \<lparr>droppableId = ''board'', index = 3\<rparr>,
        destination = Some \<lparr>droppableId = ''board'', index = 1\<rparr>\<rparr> = Threw TypeError rs)
   \<and> (\<exists>s rs. onDragEnd board_AB
       \<lparr>type = ''task'', source = \<lparr>droppableId = ''A'', index = 2\<rparr>,
        destination = Some \<lparr>droppableId = ''B'', index = 0\<rparr>\<rparr> = Returned s rs)
   \<and> onDragEnd board_AB
       \<lparr>type = ''task'', source = \<lparr>droppableId = ''A'', index = 3\<rparr>,
        destination = Some \<lparr>droppableId = ''B'', index = 0\<rparr>\<rparr> = Threw TypeError []
   \<and> onDragEnd board_AB
       \<lparr>type = ''task'', source = \<lparr>droppableId = ''A'', index = 3\<rparr>,
        destination = Some \<lparr>droppableId = ''B'', index = 0\<rparr>\<rparr> \<noteq> Returned board_AB []"
  using
    source_index_dereference [of "\<lparr>type = ''list'', source = \<lparr>droppableId = ''board'', index = 0\<rparr>,
        destination = Some \<lparr>droppableId = ''board'', index = 2\<rparr>\<rparr>"
        "\<lparr>droppableId = ''board'', index = 2\<rparr>" board_L012 0 0]
    source_index_dereference [of "\<lparr>type = ''list'', source = \<lparr>droppableId = ''board'', index = 3\<rparr>,
        destination = Some \<lparr>droppableId = ''board'', index = 1\<rparr>\<rparr>"
        "\<lparr>droppableId = ''board'', index = 1\<rparr>" board_L012 0 0]
    source_index_dereference [of "\<lparr>type = ''task'', source = \<lparr>droppableId = ''A'', index = 2\<rparr>,
        destination = Some \<lparr>droppableId = ''B'', index = 0\<rparr>\<rparr>"
        "\<lparr>droppableId = ''B'', index = 0\<rparr>" board_AB 0 1]
    source_index_dereference [of "\<lparr>type = ''task'', source = \<lparr>droppableId = ''A'', index = 3\<rparr>,
        destination = Some \<lparr>droppableId = ''B'', index = 0\<rparr>\<rparr>"
        "\<lparr>droppableId = ''B'', index = 0\<rparr>" board_AB 0 1]
  by (simp add: board_AB_def board_L012_def)

section \<open>Fetching and change notifications\<close>

text \<open>
  Claim C6. The two registrations, for the tables \<open>tasks\<close> and \<open>task_lists\<close>, carry the
  same callback \<open>fetchTaskLists\<close> and the event filter \<open>*\<close>. A change of either table, of
  any kind, invokes exactly that callback, which sends the full-board query: the select
  of \<open>*, tasks(*)\<close> on \<open>task_lists\<close>, with the tasks ordered by position. The state
  afterwards depends on the backend only through its answer to that one request, and
  when that answer carries no error the state becomes the fetched board (the empty
  board for a \<open>null\<close>). The backend of the witness answers that select alone and
  reports an error for every other request.
\<close>

theorem change_refetches:
  assumes "change_schema c = ''public''"
    and "change_table c = ''tasks'' \<or> change_table c = ''task_lists''"
  shows "map (\<lambda>(f, cb). (event f, table f)) subscription
           = [(''*'', ''tasks''), (''*'', ''task_lists'')]
       \<and> map snd subscription = [fetchTaskLists, fetchTaskLists]
       \<and> invoked subscription c = [fetchTaskLists]
       \<and> on_change subscription c remote taskLists = fetchTaskLists remote taskLists
       \<and> (error (remote fetch_query) = None \<longrightarrow>
            on_change subscription c remote taskLists
              = (case data (remote fetch_query) of None \<Rightarrow> [] | Some ls \<Rightarrow> ls))
       \<and> fetch_query = Select ''task_lists'' ''*, tasks(*)'' (''position'', ''tasks'', True)
       \<and> (remote (Select ''task_lists'' ''*, tasks(*)'' (''position'', ''tasks'', True))
              = \<lparr>data = answer, error = None\<rparr> \<longrightarrow>
            on_change subscription c remote taskLists
              = (case answer of None \<Rightarrow> [] | Some ls \<Rightarrow> ls))
       \<and> (remote (Select ''task_lists'' ''*, tasks(*)'' (''position'', ''tasks'', True))
              = remote' (Select ''task_lists'' ''*, tasks(*)'' (''position'', ''tasks'', True))
            \<longrightarrow> on_change subscription c remote taskLists
                  = on_change subscription c remote' taskLists)"
proof -
  have pinned: "on_change subscription c r taskLists
                  = (let a = r (Select ''task_lists'' ''*, tasks(*)'' (''position'', ''tasks'', True))
                     in if error a = None then (case data a of None \<Rightarrow> [] | Some ls \<Rightarrow> ls)
                        else taskLists)" for r
  proof -
    have "invoked subscription c = [fetchTaskLists]"
      using assms(2)
    proof
      assume "change_table c = ''tasks''"
      with assms(1) show ?thesis
        by (simp add: invoked_def subscription_def filter_matches_def)
    next
      assume "change_table c = ''task_lists''"
      with assms(1) show ?thesis
        by (simp add: invoked_def subscription_def filter_matches_def)
    qed
    then show ?thesis
      by (simp add: on_change_def fetchTaskLists_def fetch_query_def)
  qed
  have sent: "remote (Select ''task_lists'' ''*, tasks(*)'' (''position'', ''tasks'', True))
                = \<lparr>data = answer, error = None\<rparr> \<longrightarrow>
              on_change subscription c remote taskLists
                = (case answer of None \<Rightarrow> [] | Some ls \<Rightarrow> ls)"
    by (simp add: pinned)
  have only: "remote (Select ''task_lists'' ''*, tasks(*)'' (''position'', ''tasks'', True))
                = remote' (Select ''task_lists'' ''*, tasks(*)'' (''position'', ''tasks'', True))
              \<longrightarrow> on_change subscription c remote taskLists
                    = on_change subscription c remote' taskLists"
    by (simp add: pinned)
  have query: "fetch_query = Select ''task_lists'' ''*, tasks(*)'' (''position'', ''tasks'', True)"
    by (simp add: fetch_query_def)
  have inv: "invoked subscription c = [fetchTaskLists]"
    using assms(2)
  proof
    assume "change_table c = ''tasks''"
    with assms(1) show ?thesis
      by (simp add: invoked_def subscription_def filter_matches_def)
  next
    assume "change_table c = ''task_lists''"
    with assms(1) show ?thesis
      by (simp add: invoked_def subscription_def filter_matches_def)
  qed
  then have run: "on_change subscription c remote taskLists = fetchTaskLists remote taskLists"
    by (simp add: on_change_def)
  have "on_change subscription c remote taskLists
          = (case data (remote fetch_query) of None \<Rightarrow> [] | Some ls \<Rightarrow> ls)"
    if "error (remote fetch_query) = None"
    using that run by (simp add: fetchTaskLists_def)
  then have ok: "error (remote fetch_query) = None \<longrightarrow>
            on_change subscription c remote taskLists
              = (case data (remote fetch_query) of None \<Rightarrow> [] | Some ls \<Rightarrow> ls)"
    by blast
  have regs: "map (\<lambda>(f, cb). (event f, table f)) subscription
                = [(''*'', ''tasks''), (''*'', ''task_lists'')]"
    "map snd subscription = [fetchTaskLists, fetchTaskLists]"
    by (simp_all add: subscription_def)
  from regs inv run ok query sent only show ?thesis
    by (intro conjI)
qed

theorem change_refetches_witness:
  "on_change subscription
     \<lparr>eventType = ''DELETE'', change_schema = ''public'', change_table = ''task_lists''\<rparr>
     remote_L012 board_AB = board_L012
   \<and> invoked subscription
       \<lparr>eventType = ''DELETE'', change_schema = ''public'', change_table = ''task_lists''\<rparr>
     = [fetchTaskLists]
   \<and> remote_L012 (Select ''task_lists'' ''*'' (''position'', ''tasks'', True))
     = \<lparr>data = None, error = Some (PostgrestError ''unexpected query'')\<rparr>"
proof -
  let ?c = "\<lparr>eventType = ''DELETE'', change_schema = ''public'', change_table = ''task_lists''\<rparr>"
  have pre: "change_schema ?c = ''public''"
    "change_table ?c = ''tasks'' \<or> change_table ?c = ''task_lists''"
    by simp_all
  have answered: "remote_L012 (Select ''task_lists'' ''*, tasks(*)'' (''position'', ''tasks'', True))
                    = \<lparr>data = Some board_L012, error = None\<rparr>"
    by (simp add: remote_L012_def)
  note refetch = change_refetches [OF pre, where remote = remote_L012 and taskLists = board_AB
      and answer = "Some board_L012" and remote' = remote_L012]
  from refetch have "remote_L012 (Select ''task_lists'' ''*, tasks(*)'' (''position'', ''tasks'', True))
                    = \<lparr>data = Some board_L012, error = None\<rparr> \<longrightarrow>
       on_change subscription ?c remote_L012 board_AB
         = (case Some board_L012 of None \<Rightarrow> [] | Some ls \<Rightarrow> ls)"
    by blast
  with answered have state: "on_change subscription ?c remote_L012 board_AB = board_L012"
    by simp
  from refetch have called: "invoked subscription ?c = [fetchTaskLists]"
    by blast
  have refused: "remote_L012 (Select ''task_lists'' ''*'' (''position'', ''tasks'', True))
                   = \<lparr>data = None, error = Some (PostgrestError ''unexpected query'')\<rparr>"
    by (simp add: remote_L012_def)
  from state called refused show ?thesis
    by (intro conjI)
qed

text \<open>
  Claim C7. When the answer to the fetch carries an error, the state stays the board it
  was, whatever the answer's data.
\<close>

theorem fetch_error_keeps_state:
  "error (remote fetch_query) = Some e \<Longrightarrow> fetchTaskLists remote taskLists = taskLists"
  by (simp add: fetchTaskLists_def)

theorem fetch_error_keeps_state_witness:
  "fetchTaskLists (\<lambda>q. \<lparr>data = Some [], error = Some (PostgrestError ''timeout'')\<rparr>) board_AB
     = board_AB"
  using fetch_error_keeps_state [of
      "\<lambda>q. \<lparr>data = Some [], error = Some (PostgrestError ''timeout'')\<rparr>"
      "PostgrestError ''timeout''" board_AB]
  by simp

section \<open>Creation\<close>

text \<open>
  Claim C9. With a non-empty content, \<open>addTask\<close> issues one insert of one row whose
  columns are \<open>id\<close>, \<open>content\<close> and \<open>list_id\<close>: the row has no \<open>position\<close>. With a
  non-empty title, \<open>addTaskList\<close> issues one insert whose \<open>position\<close> is the number of
  lists of the board. The rows of \<open>tasks\<close> do have a position: every update of the
  task write loop sets one.
\<close>

theorem creation_inserts:
  assumes "c \<noteq> []" and "ttl \<noteq> []"
  shows "(\<exists>r. addTask lid (Some c) uuid = [Insert ''tasks'' [r]]
            \<and> r = [(''id'', Str uuid), (''content'', Str c), (''list_id'', Str lid)]
            \<and> map_of r ''position'' = None)
       \<and> (\<exists>r. addTaskList taskLists (Some ttl) uuid' = [Insert ''task_lists'' [r]]
            \<and> map_of r ''position'' = Some (Num (length taskLists)))
       \<and> (\<forall>q \<in> set (task_position_updates i dest ts).
             \<exists>fs w p. q = Update ''tasks'' fs w \<and> map_of fs ''position'' = Some (Num p))"
proof -
  have "\<forall>q \<in> set (task_position_updates i dest ts).
          \<exists>fs w p. q = Update ''tasks'' fs w \<and> map_of fs ''position'' = Some (Num p)"
    by (induction ts arbitrary: i) auto
  with assms show ?thesis
    by (simp add: addTask_def addTaskList_def)
qed

theorem creation_inserts_witness:
  "addTask ''A'' (Some ''write tests'') ''id-1''
     = [Insert ''tasks''
          [[(''id'', Str ''id-1''), (''content'', Str ''write tests''), (''list_id'', Str ''A'')]]]
   \<and> addTaskList board_AB (Some ''Later'') ''id-2''
     = [Insert ''task_lists''
          [[(''id'', Str ''id-2''), (''title'', Str ''Later''), (''position'', Num 2)]]]"
  using creation_inserts [where c = "''write tests''" and ttl = "''Later''" and lid = "''A''"
      and uuid = "''id-1''" and taskLists = board_AB and uuid' = "''id-2''" and i = 0
      and dest = "''B''" and ts = "tasks (board_AB ! 1)"]
  by (simp add: addTask_def addTaskList_def board_AB_def)

section \<open>Updates on the persisted tables\<close>

lemma update_list_row:
  "update_row [(''position'', Num k)] (''id'', Str x) (list_row p l)
     = (if l_id l = x then list_row k l else list_row p l)"
  by (simp add: update_row_def patch_def list_row_def)

lemma update_task_row:
  "update_row [(''position'', Num k), (''list_id'', Str d)] (''id'', Str x) (task_row p t)
     = (if t_id t = x then task_row k (t\<lparr>list_id := d\<rparr>) else task_row p t)"
  by (simp add: update_row_def patch_def task_row_def)








section \<open>Boards with keys\<close>

lemma tasks_distinct_in_list:
  "distinct (map t_id (concat (map tasks b))) \<Longrightarrow> l \<in> set b \<Longrightarrow> distinct (map t_id (tasks l))"
  by (induction b) auto

lemma tasks_one_list:
  "distinct (map t_id (concat (map tasks b))) \<Longrightarrow> l \<in> set b \<Longrightarrow> l' \<in> set b \<Longrightarrow>
     t \<in> set (tasks l) \<Longrightarrow> t' \<in> set (tasks l') \<Longrightarrow> t_id t = t_id t' \<Longrightarrow> l = l'"
proof (induction b)
  case Nil
  then show ?case by simp
next
  case (Cons a b)
  from Cons.prems(1) have d: "distinct (map t_id (concat (map tasks b)))"
    and disj: "t_id ` set (tasks a) \<inter> t_id ` (\<Union>x\<in>set b. set (tasks x)) = {}"
    by (auto simp: image_UN)
  show ?case
  proof (cases "l = a")
    case la: True
    show ?thesis
    proof (cases "l' = a")
      case True
      with la show ?thesis by simp
    next
      case False
      with Cons.prems have "l' \<in> set b" by simp
      with Cons.prems(4,5,6) la disj show ?thesis by (auto simp: image_iff) 
    qed
  next
    case la: False
    with Cons.prems have lb: "l \<in> set b" by simp
    show ?thesis
    proof (cases "l' = a")
      case True
      with Cons.prems(4,5,6) lb disj show ?thesis by (auto simp: image_iff) 
    next
      case False
      with Cons.prems have "l' \<in> set b" by simp
      with lb d Cons.prems(4,5,6) show ?thesis by (intro Cons.IH)
    qed
  qed
qed

lemma wf_distinct_tasks: "wf_board b \<Longrightarrow> l \<in> set b \<Longrightarrow> distinct (map t_id (tasks l))"
  by (auto simp: wf_board_def intro: tasks_distinct_in_list)

lemma wf_one_list:
  "wf_board b \<Longrightarrow> l \<in> set b \<Longrightarrow> l' \<in> set b \<Longrightarrow>
     t \<in> set (tasks l) \<Longrightarrow> t' \<in> set (tasks l') \<Longrightarrow> t_id t = t_id t' \<Longrightarrow> l = l'"
  unfolding wf_board_def by (blast intro: tasks_one_list)

lemma wf_owner: "wf_board b \<Longrightarrow> l \<in> set b \<Longrightarrow> t \<in> set (tasks l) \<Longrightarrow> list_id t = l_id l"
  by (auto simp: wf_board_def list_all_iff)

lemma wf_list_ids: "wf_board b \<Longrightarrow> distinct (map l_id b)"
  by (simp add: wf_board_def)

lemma fold_noop: "(\<And>q. q \<in> set rs \<Longrightarrow> f q x = x) \<Longrightarrow> fold f rs x = x"
  by (induction rs) auto

lemma in_enumerate0: "(p, x) \<in> set (enumerate 0 xs) \<longleftrightarrow> p < length xs \<and> xs ! p = x"
  by (auto simp: in_set_enumerate_eq)

lemma splice_back:
  assumes "k < length xs"
  shows "splice_insert (take k xs @ drop (Suc k) xs) (int k) (xs ! k) = xs"
proof -
  have "relative_start (length (take k xs @ drop (Suc k) xs)) (int k) = k"
    using assms by (subst relative_start_in_range) auto
  then show ?thesis
    using assms by (simp add: splice_insert_def Let_def flip: id_take_nth_drop)
qed

lemma list_update_noop_on_persisted:
  assumes "distinct (map l_id b)" and "k < length b"
  shows "apply_request (Update ''task_lists'' [(''position'', Num k)] (''id'', Str (l_id (b ! k))))
           (persisted b) = persisted b"
proof -
  have "update_row [(''position'', Num k)] (''id'', Str (l_id (b ! k))) (list_row p l) = list_row p l"
    if "(p, l) \<in> set (enumerate 0 b)" for p l
  proof -
    from that have p: "p < length b" "b ! p = l" by (simp_all add: in_enumerate0)
    have "p = k" if "l_id l = l_id (b ! k)"
      using that p assms nth_eq_iff_index_eq [of "map l_id b" p k] by simp
    then show ?thesis by (auto simp: update_list_row)
  qed
  then have "map (update_row [(''position'', Num k)] (''id'', Str (l_id (b ! k)))) (list_rows b)
               = list_rows b"
    by (auto simp: list_rows_def intro!: map_idI)
  then show ?thesis
    by (auto simp: persisted_def fun_eq_iff)
qed

lemma task_update_noop_on_persisted:
  assumes "wf_board b" and "si < length b" and "k < length (tasks (b ! si))"
  shows "apply_request
           (Update ''tasks'' [(''position'', Num k), (''list_id'', Str (l_id (b ! si)))]
              (''id'', Str (t_id (tasks (b ! si) ! k))))
           (persisted b) = persisted b"
proof -
  let ?u = "update_row [(''position'', Num k), (''list_id'', Str (l_id (b ! si)))]
              (''id'', Str (t_id (tasks (b ! si) ! k)))"
  have row: "?u (task_row p t) = task_row p t"
    if l: "l \<in> set b" and pt: "(p, t) \<in> set (enumerate 0 (tasks l))" for l p t
  proof (cases "t_id t = t_id (tasks (b ! si) ! k)")
    case True
    from pt have p: "p < length (tasks l)" "tasks l ! p = t" by (simp_all add: in_enumerate0)
    then have t: "t \<in> set (tasks l)" by auto
    have "l = b ! si"
      using assms l t True
      by (intro wf_one_list [of b l "b ! si" t "tasks (b ! si) ! k"]) auto
    with p True wf_distinct_tasks [OF assms(1) l] assms(3)
    have "p = k"
      using nth_eq_iff_index_eq [of "map t_id (tasks l)" p k] by simp
    moreover have own: "list_id t = l_id (b ! si)"
      using wf_owner [OF assms(1) l t] \<open>l = b ! si\<close> by simp
    moreover from own have "task_row k (t\<lparr>list_id := l_id (b ! si)\<rparr>) = task_row k t"
      by (simp add: task_row_def)
    ultimately show ?thesis using True by (simp add: update_task_row)
  next
    case False
    then show ?thesis by (simp add: update_task_row)
  qed
  have "map ?u (task_rows (tasks l)) = task_rows (tasks l)" if "l \<in> set b" for l
    using row [OF that] by (auto simp: task_rows_def intro!: map_idI)
  then have "map ?u (concat (map (\<lambda>l. task_rows (tasks l)) b))
               = concat (map (\<lambda>l. task_rows (tasks l)) b)"
    by (simp add: map_concat comp_def cong: map_cong)
  then show ?thesis
    by (auto simp: persisted_def fun_eq_iff)
qed

section \<open>Reorder in place\<close>

lemma reorder_lists_in_place:
  assumes "0 \<le> i" and "i < int (length b)"
  shows "reorder_lists b i i = Returned b (list_position_updates 0 b)"
proof -
  have k: "relative_start (length b) i = nat i" "nat i < length b"
    using assms by (simp_all add: relative_start_in_range)
  have "splice_insert (take (nat i) b @ drop (Suc (nat i)) b) i (b ! nat i) = b"
    using splice_back [OF k(2)] assms(1) by simp
  with k show ?thesis
    by (simp add: reorder_lists_unfold Let_def)
qed

lemma reorder_tasks_in_place:
  assumes "wf_board b"
    and "find_index (\<lambda>l. l_id l = droppableId src) b = Some si"
    and "0 \<le> index src" and "index src < int (length (tasks (b ! si)))"
  shows "reorder_tasks b src src
           = Returned b (task_position_updates 0 (l_id (b ! si)) (tasks (b ! si)))"
proof -
  define i where "i = nat (index src)"
  define ts where "ts = tasks (b ! si)"
  from find_index_Some [OF assms(2)] have si: "si < length b" by simp
  have k: "relative_start (length ts) (index src) = i" "i < length ts"
    using assms(3,4) by (simp_all add: relative_start_in_range i_def ts_def)
  have "ts ! i \<in> set (tasks (b ! si))"
    using k(2) by (simp add: ts_def)
  then have own: "(ts ! i)\<lparr>list_id := l_id (b ! si)\<rparr> = ts ! i"
    using wf_owner [OF assms(1), of "b ! si" "ts ! i"] si by simp
  have reins: "splice_insert (take i ts @ drop (Suc i) ts) (index src) (ts ! i) = ts"
    using splice_back [OF k(2)] assms(3) by (simp add: i_def)
  have "(b ! si)\<lparr>tasks := ts\<rparr> = b ! si"
    by (simp add: ts_def)
  then have "b[si := (b ! si)\<lparr>tasks := ts\<rparr>] = b"
    by simp
  with k si own reins show ?thesis
    by (simp add: reorder_tasks_unfold [OF assms(2) assms(2)] Let_def flip: ts_def)
qed

text \<open>
  Claim C5. On a board whose ids are keys and whose tasks carry the id of their list, a
  list or a task dropped at its own place (the destination is the source, with the index
  in range) leaves the board equal to what it was. The handler still runs its write
  loop; on the store that matches the board every one of these requests writes the
  values the rows already hold, so each request, and all of them in order, leave the
  store as it was.
\<close>

theorem reorder_in_place:
  assumes "wf_board taskLists" and "destination result = Some (source result)"
    and "0 \<le> index (source result)"
    and "type result = ''list'' \<and> index (source result) < int (length taskLists)
         \<or> type result = ''task''
           \<and> (\<exists>si. find_index (\<lambda>l. l_id l = droppableId (source result)) taskLists = Some si
                  \<and> index (source result) < int (length (tasks (taskLists ! si))))"
  shows "\<exists>rs. onDragEnd taskLists result = Returned taskLists rs
           \<and> (\<forall>q \<in> set rs. apply_request q (persisted taskLists) = persisted taskLists)
           \<and> apply_requests rs (persisted taskLists) = persisted taskLists"
proof -
  have "\<exists>rs. onDragEnd taskLists result = Returned taskLists rs
           \<and> (\<forall>q \<in> set rs. apply_request q (persisted taskLists) = persisted taskLists)"
    using assms(4)
  proof (elim disjE conjE exE)
    assume ty: "type result = ''list''" and i: "index (source result) < int (length taskLists)"
    have run: "onDragEnd taskLists result
                 = Returned taskLists (list_position_updates 0 taskLists)"
      using ty assms(2) reorder_lists_in_place [OF assms(3) i] by (simp add: onDragEnd_def)
    have "apply_request q (persisted taskLists) = persisted taskLists"
      if "q \<in> set (list_position_updates 0 taskLists)" for q
    proof -
      from that obtain k where "k < length taskLists"
        "q = Update ''task_lists'' [(''position'', Num k)] (''id'', Str (l_id (taskLists ! k)))"
        by (auto simp: list_position_updates_eq)
      then show ?thesis
        using list_update_noop_on_persisted [OF wf_list_ids [OF assms(1)]] by simp
    qed
    with run show ?thesis by blast
  next
    fix si
    assume ty: "type result = ''task''"
      and si: "find_index (\<lambda>l. l_id l = droppableId (source result)) taskLists = Some si"
      and i: "index (source result) < int (length (tasks (taskLists ! si)))"
    have run: "onDragEnd taskLists result
                 = Returned taskLists
                     (task_position_updates 0 (l_id (taskLists ! si)) (tasks (taskLists ! si)))"
      using ty assms(2) reorder_tasks_in_place [OF assms(1) si assms(3) i]
      by (simp add: onDragEnd_def)
    from find_index_Some [OF si] have less: "si < length taskLists" by simp
    have "apply_request q (persisted taskLists) = persisted taskLists"
      if "q \<in> set (task_position_updates 0 (l_id (taskLists ! si)) (tasks (taskLists ! si)))"
      for q
    proof -
      from that obtain k where "k < length (tasks (taskLists ! si))"
        "q = Update ''tasks'' [(''position'', Num k), (''list_id'', Str (l_id (taskLists ! si)))]
               (''id'', Str (t_id (tasks (taskLists ! si) ! k)))"
        by (auto simp: task_position_updates_eq)
      then show ?thesis
        using task_update_noop_on_persisted [OF assms(1) less] by simp
    qed
    with run show ?thesis by blast
  qed
  then obtain rs where rs: "onDragEnd taskLists result = Returned taskLists rs"
    "\<forall>q \<in> set rs. apply_request q (persisted taskLists) = persisted taskLists"
    by blast
  from rs(2) have "apply_requests rs (persisted taskLists) = persisted taskLists"
    unfolding apply_requests_def by (intro fold_noop) simp
  with rs show ?thesis by blast
qed

lemma wf_board_AB: "wf_board board_AB"
  by (simp add: wf_board_def board_AB_def)

theorem reorder_in_place_witness:
  "(\<exists>rs. onDragEnd board_AB ev_same_task = Returned board_AB rs
      \<and> apply_requests rs (persisted board_AB) = persisted board_AB)
   \<and> (\<exists>rs. onDragEnd board_AB ev_same_list = Returned board_AB rs
      \<and> apply_requests rs (persisted board_AB) = persisted board_AB)"
proof -
  have "find_index (\<lambda>l. l_id l = droppableId (source ev_same_task)) board_AB = Some 0
          \<and> index (source ev_same_task) < int (length (tasks (board_AB ! 0)))"
    by (simp add: ev_same_task_def board_AB_def)
  then have 1: "\<exists>si. find_index (\<lambda>l. l_id l = droppableId (source ev_same_task)) board_AB = Some si
          \<and> index (source ev_same_task) < int (length (tasks (board_AB ! si)))"
    by blast
  have 2: "index (source ev_same_list) < int (length board_AB)"
    by (simp add: ev_same_list_def board_AB_def)
  from reorder_in_place [of board_AB ev_same_task] reorder_in_place [of board_AB ev_same_list]
    wf_board_AB 1 2
  show ?thesis
    by (simp add: ev_same_task_def ev_same_list_def) blast
qed

section \<open>Positions as a permutation\<close>





lemma position_of_list_row [simp]: "position_of (list_row p l) = Some p"
  by (simp add: position_of_def list_row_def)

lemma position_of_task_row [simp]: "position_of (task_row p t) = Some p"
  by (simp add: position_of_def task_row_def)

lemma list_id_of_task_row [simp]:
  "map_of (task_row p t) ''list_id'' = Some (Str x) \<longleftrightarrow> list_id t = x"
  by (simp add: task_row_def)






section \<open>The task table as placed tasks\<close>



lemma in_placed_tasks:
  "pt \<in> set (placed_tasks b) \<longleftrightarrow>
     (\<exists>l \<in> set b. fst pt < length (tasks l) \<and> tasks l ! fst pt = snd pt)"
  by (cases pt) (auto simp: placed_tasks_def in_enumerate0)

















section \<open>What the two branches write\<close>












section \<open>Position density after a reorder\<close>





end
